theory Spec2Isabelle
  imports Complex_Main
begin

section \<open>The equation-of-state engines of pyEQL (src/pyEQL/engines.py)\<close>

text \<open>
  The module defines the abstract class \<open>EOS\<close> and its two implementations
  \<open>IdealEOS\<close> and \<open>NativeEOS\<close>. This theory embeds the four methods of \<open>NativeEOS\<close>.

  Conventions of the embedding.
  \<^item> A pint quantity is its magnitude, a \<open>real\<close> (the rounding of Python floats is
    not modelled); a volume is its magnitude in litres.
    pint keeps the unit of the left operand of \<open>+=\<close>, and \<open>solute_vol\<close> starts as
    \<open>0 * unit("L")\<close>, so the running volume is in litres throughout and the final
    \<open>.to("L")\<close> does not change the magnitude.
  \<^item> Python exceptions are values of \<open>py_error\<close>; a method returns
    \<open>py_error + result\<close> with \<open>Inl\<close> the exception.
  \<^item> Calls of the logger are recorded, in order, as a list of \<open>log_event\<close> returned
    beside the value.
  \<^item> The collaborators that are not part of the module (the correlation library
    \<open>pyEQL.activity_correction\<close>, the parameter store \<open>paramsDB\<close>, the solution
    container and the salt decomposition) are parameters of every definition.
\<close>

subsection \<open>Exceptions and Python primitives\<close>

datatype py_error = KeyError | IndexError | ZeroDivisionError | NotImplementedError

definition bind_err :: "'e + 'a \<Rightarrow> ('a \<Rightarrow> 'e + 'b) \<Rightarrow> 'e + 'b" where
  "bind_err m f = (case m of Inl e \<Rightarrow> Inl e | Inr x \<Rightarrow> f x)"

text \<open>\<open>xs[i]\<close> for a non-negative literal index: IndexError out of range.\<close>

definition py_index :: "'a list \<Rightarrow> nat \<Rightarrow> py_error + 'a" where
  "py_index xs i = (if i < length xs then Inr (xs ! i) else Inl IndexError)"

text \<open>\<open>a / b\<close> on numbers: ZeroDivisionError for a zero divisor.\<close>

definition py_truediv :: "real \<Rightarrow> real \<Rightarrow> py_error + real" where
  "py_truediv a b = (if b = 0 then Inl ZeroDivisionError else Inr (a / b))"

subsection \<open>Data model\<close>

text \<open>
  A \<open>Salt\<close> object of \<open>pyEQL.salt_ion_match\<close>: the attributes the engine reads.
\<close>

record salt =
  formula :: string
  cation :: string
  anion :: string
  z_cation :: int
  z_anion :: int
  nu_cation :: int
  nu_anion :: int

text \<open>
  A solute object, as far as the engine uses it: \<open>get_formal_charge()\<close>,
  \<open>get_moles()\<close> and \<open>get_parameter("partial_molar_volume")\<close>.
\<close>

record solute =
  get_formal_charge :: int
  get_moles :: real
  get_parameter_partial_molar_volume :: real

text \<open>
  The solution container. \<open>components\<close> is the dictionary of solutes in iteration
  order (keys are unique in a dictionary; \<open>map_of\<close> is the lookup).
  \<open>salt_list\<close> is the dictionary returned by \<open>generate_salt_list(solution, unit="mol/kg")\<close>
  and by \<open>solution.get_salt_list()\<close>, in iteration order: each salt with the
  concentration stored under it. \<open>get_salt\<close> is the result of \<open>solution.get_salt()\<close>;
  \<open>get_amount_molkg x\<close> and \<open>get_amount_mol x\<close> are
  \<open>solution.get_amount(x, "mol/kg")\<close> and \<open>solution.get_amount(x, "mol")\<close>.
  The temperature is handed to the correlation library as it is (the code passes
  \<open>str(solution.temperature)\<close>).
\<close>

record solution =
  components :: "(string \<times> solute) list"
  ionic_strength :: real
  temperature :: real
  salt_list :: "(salt \<times> real) list"
  get_salt :: salt
  get_amount_molkg :: "string \<Rightarrow> real"
  get_amount_mol :: "string \<Rightarrow> real"

text \<open>
  The parameter store \<open>paramsDB\<close>, after \<open>search_parameters\<close> has loaded the
  formula: \<open>has_parameter(f, k)\<close> is \<open>db f k \<noteq> None\<close> and
  \<open>get_parameter(f, k).get_value()\<close> is the stored tuple of coefficients.
\<close>

datatype param_kind =
  pitzer_parameters_activity | pitzer_parameters_volume | partial_molar_volume

type_synonym paramsDB = "string \<Rightarrow> param_kind \<Rightarrow> real list option"

text \<open>
  The positional arguments of the three Pitzer functions of the correlation library, in
  the order of the call: ionic strength, molality, alpha1, alpha2, the stored
  coefficients, the two charges, the two stoichiometric coefficients, the temperature.
  The apparent-volume function takes a fifth stored coefficient.
\<close>

record pitzer_args =
  arg_ionic_strength :: real
  arg_molality :: real
  alpha1 :: real
  alpha2 :: real
  param0 :: real
  param1 :: real
  param2 :: real
  param3 :: real
  arg_z_cation :: int
  arg_z_anion :: int
  arg_nu_cation :: int
  arg_nu_anion :: int
  arg_temperature :: real

record pitzer_volume_args = pitzer_args +
  param4 :: real

text \<open>
  The functions of \<open>pyEQL.activity_correction\<close> the engine calls, and the method
  \<open>Salt.get_effective_molality\<close>; their bodies are not part of the module.
\<close>

record externals =
  get_activity_coefficient_pitzer :: "pitzer_args \<Rightarrow> real"
  get_activity_coefficient_debyehuckel :: "real \<Rightarrow> int \<Rightarrow> real \<Rightarrow> real"
  get_activity_coefficient_guntelberg :: "real \<Rightarrow> int \<Rightarrow> real \<Rightarrow> real"
  get_activity_coefficient_davies :: "real \<Rightarrow> int \<Rightarrow> real \<Rightarrow> real"
  get_osmotic_coefficient_pitzer :: "pitzer_args \<Rightarrow> real"
  get_apparent_volume_pitzer :: "pitzer_volume_args \<Rightarrow> real"
  get_effective_molality :: "salt \<Rightarrow> real \<Rightarrow> real"

text \<open>The calls of \<open>logger.info\<close> and \<open>logger.warning\<close>, one constructor per call site.\<close>

datatype log_event =
    Warning_no_salt string
  | Info_pitzer_activity string real string
  | Info_debyehuckel real
  | Info_guntelberg real
  | Info_davies real
  | Warning_ionic_strength_too_high string
  | Info_pitzer_osmotic real string
  | Warning_no_pitzer_osmotic string
  | Info_pitzer_volume string
  | Info_partial_molar_volume string
  | Warning_no_partial_molar_volume string

subsection \<open>NativeEOS.get_activity_coefficient (lines 208 to 323)\<close>

text \<open>
  Lines 212 to 216: the loop over the salt list; \<open>Salt\<close> starts as \<open>None\<close> and every
  matching item is assigned to it.
\<close>

fun match_salt :: "string \<Rightarrow> salt list \<Rightarrow> salt option \<Rightarrow> salt option" where
  "match_salt solute [] Salt = Salt"
| "match_salt solute (item # rest) Salt =
     match_salt solute rest
       (if solute = cation item \<or> solute = anion item then Some item else Salt)"

text \<open>
  \<open>verbose\<close> is the constant \<open>False\<close>, so the \<open>print\<close> of line 231 never runs.
  \<open>solution.components[solute]\<close> raises KeyError for a missing key.
\<close>

definition get_activity_coefficient ::
  "externals \<Rightarrow> paramsDB \<Rightarrow> solution \<Rightarrow> string \<Rightarrow> py_error + (real \<times> log_event list)" where
  "get_activity_coefficient ac db solution solute =
    (case map_of (components solution) solute of
       None \<Rightarrow> Inl KeyError
     | Some ion \<Rightarrow>
       (case match_salt solute (map fst (salt_list solution)) None of
          None \<Rightarrow> Inr (1, [Warning_no_salt solute])
        | Some Salt \<Rightarrow>
          (case db (formula Salt) pitzer_parameters_activity of
             Some param \<Rightarrow>
               (let (a1, a2) =
                      (if nu_cation Salt \<ge> 2 \<and> nu_anion Salt \<le> - 2
                       then (if nu_cation Salt \<ge> 3 \<or> nu_anion Salt \<le> - 3
                             then (2, 50) else (1.4, 12))
                       else (2, 0));
                    molality = get_effective_molality ac Salt (ionic_strength solution)
                in bind_err (py_index param 0) (\<lambda>p0.
                   bind_err (py_index param 1) (\<lambda>p1.
                   bind_err (py_index param 2) (\<lambda>p2.
                   bind_err (py_index param 3) (\<lambda>p3.
                     (let activity_coefficient = get_activity_coefficient_pitzer ac
                            \<lparr>arg_ionic_strength = ionic_strength solution,
                             arg_molality = molality,
                             alpha1 = a1, alpha2 = a2,
                             param0 = p0, param1 = p1, param2 = p2, param3 = p3,
                             arg_z_cation = z_cation Salt, arg_z_anion = z_anion Salt,
                             arg_nu_cation = nu_cation Salt, arg_nu_anion = nu_anion Salt,
                             arg_temperature = temperature solution\<rparr>
                      in Inr (activity_coefficient,
                              [Info_pitzer_activity solute activity_coefficient
                                 (formula Salt)])))))))
           | None \<Rightarrow>
               (if ionic_strength solution \<le> 0.005 then
                  Inr (get_activity_coefficient_debyehuckel ac (ionic_strength solution)
                         (get_formal_charge ion) (temperature solution),
                       [Info_debyehuckel (ionic_strength solution)])
                else if ionic_strength solution \<le> 0.1 then
                  Inr (get_activity_coefficient_guntelberg ac (ionic_strength solution)
                         (get_formal_charge ion) (temperature solution),
                       [Info_guntelberg (ionic_strength solution)])
                else if ionic_strength solution \<le> 0.5 then
                  Inr (get_activity_coefficient_davies ac (ionic_strength solution)
                         (get_formal_charge ion) (temperature solution),
                       [Info_davies (ionic_strength solution)])
                else Inr (1, [Warning_ionic_strength_too_high solute])))))"

subsection \<open>NativeEOS.get_osmotic_coefficient (lines 404 to 480)\<close>

text \<open>
  Lines 423 to 478, the body of the loop for one salt that is not \<open>HOH\<close>: the term
  added to \<open>effective_osmotic_sum\<close> and the logger call.
\<close>

definition osmotic_term ::
  "externals \<Rightarrow> paramsDB \<Rightarrow> solution \<Rightarrow> salt \<Rightarrow> real \<Rightarrow> py_error + (real \<times> log_event)" where
  "osmotic_term ac db solution item concentration =
    (let (a1, a2) =
           (if z_cation item \<ge> 2 \<and> z_anion item \<le> - 2
            then (if z_cation item \<ge> 3 \<or> z_anion item \<le> - 3
                  then (2.0, 50.0) else (1.4, 12.0))
            else (2.0, 0))
     in (case db (formula item) pitzer_parameters_activity of
           Some param \<Rightarrow>
             bind_err (py_index param 0) (\<lambda>p0.
             bind_err (py_index param 1) (\<lambda>p1.
             bind_err (py_index param 2) (\<lambda>p2.
             bind_err (py_index param 3) (\<lambda>p3.
               (let osmotic_coefficient = get_osmotic_coefficient_pitzer ac
                      \<lparr>arg_ionic_strength = ionic_strength solution,
                       arg_molality = concentration,
                       alpha1 = a1, alpha2 = a2,
                       param0 = p0, param1 = p1, param2 = p2, param3 = p3,
                       arg_z_cation = z_cation item, arg_z_anion = z_anion item,
                       arg_nu_cation = nu_cation item, arg_nu_anion = nu_anion item,
                       arg_temperature = temperature solution\<rparr>
                in Inr (concentration * osmotic_coefficient,
                        Info_pitzer_osmotic osmotic_coefficient (formula item)))))))
         | None \<Rightarrow>
             Inr (concentration * 1, Warning_no_pitzer_osmotic (formula item))))"

text \<open>
  Lines 415 to 478: the loop, with the two accumulators and the log. \<open>salt_list[item]\<close>
  is the concentration stored under the key being visited.
\<close>

fun osmotic_loop ::
  "externals \<Rightarrow> paramsDB \<Rightarrow> solution \<Rightarrow> (salt \<times> real) list \<Rightarrow> real \<Rightarrow> real \<Rightarrow> log_event list
     \<Rightarrow> py_error + (real \<times> real \<times> log_event list)" where
  "osmotic_loop ac db solution [] effective_osmotic_sum molality_sum logged =
     Inr (effective_osmotic_sum, molality_sum, logged)"
| "osmotic_loop ac db solution ((item, concentration) # rest)
       effective_osmotic_sum molality_sum logged =
     (if formula item = ''HOH''
      then osmotic_loop ac db solution rest effective_osmotic_sum molality_sum logged
      else (case osmotic_term ac db solution item concentration of
              Inl e \<Rightarrow> Inl e
            | Inr (term, event) \<Rightarrow>
                osmotic_loop ac db solution rest (effective_osmotic_sum + term)
                  (molality_sum + concentration) (logged @ [event])))"

text \<open>
  Line 480: the quotient of the two sums, with no test of the divisor. Both sums start
  as the integer 0, and Python's division raises ZeroDivisionError on a zero divisor.
\<close>

definition get_osmotic_coefficient ::
  "externals \<Rightarrow> paramsDB \<Rightarrow> solution \<Rightarrow> py_error + (real \<times> log_event list)" where
  "get_osmotic_coefficient ac db solution =
    (case osmotic_loop ac db solution (salt_list solution) 0 0 [] of
       Inl e \<Rightarrow> Inl e
     | Inr (effective_osmotic_sum, molality_sum, logged) \<Rightarrow>
         bind_err (py_truediv effective_osmotic_sum molality_sum) (\<lambda>q. Inr (q, logged)))"

subsection \<open>NativeEOS.get_solute_volume (lines 487 to 574)\<close>

text \<open>
  Lines 487 to 549: the contribution of the predominant salt. The result is
  \<open>solute_vol\<close>, the flag \<open>pitzer_calc\<close> and the log.
\<close>

definition pitzer_volume_part ::
  "externals \<Rightarrow> paramsDB \<Rightarrow> solution \<Rightarrow> py_error + (real \<times> bool \<times> log_event list)" where
  "pitzer_volume_part ac db solution =
    (let Salt = get_salt solution in
     (case db (formula Salt) pitzer_parameters_volume of
        None \<Rightarrow> Inr (0, False, [])
      | Some param \<Rightarrow>
          (let molality = (get_amount_molkg solution (cation Salt)
                           + get_amount_molkg solution (anion Salt)) / 2;
               (a1, a2) =
                 (if nu_cation Salt \<ge> 2 \<and> nu_anion Salt \<ge> 2
                  then (if nu_cation Salt \<ge> 3 \<or> nu_anion Salt \<ge> 3
                        then (2, 50) else (1.4, 12))
                  else (2, 0))
           in bind_err (py_index param 0) (\<lambda>p0.
              bind_err (py_index param 1) (\<lambda>p1.
              bind_err (py_index param 2) (\<lambda>p2.
              bind_err (py_index param 3) (\<lambda>p3.
              bind_err (py_index param 4) (\<lambda>p4.
                (let apparent_vol = get_apparent_volume_pitzer ac
                       \<lparr>arg_ionic_strength = ionic_strength solution,
                        arg_molality = molality,
                        alpha1 = a1, alpha2 = a2,
                        param0 = p0, param1 = p1, param2 = p2, param3 = p3,
                        arg_z_cation = z_cation Salt, arg_z_anion = z_anion Salt,
                        arg_nu_cation = nu_cation Salt, arg_nu_anion = nu_anion Salt,
                        arg_temperature = temperature solution,
                        param4 = p4\<rparr>
                 in bind_err (py_truediv (get_amount_mol solution (cation Salt))
                                (real_of_int (nu_cation Salt))) (\<lambda>per_cation.
                    bind_err (py_truediv (get_amount_mol solution (anion Salt))
                                (real_of_int (nu_anion Salt))) (\<lambda>per_anion.
                      Inr (0 + apparent_vol * (per_cation + per_anion) / 2, True,
                           [Info_pitzer_volume (formula Salt)]))))))))))))"

text \<open>
  Lines 553 to 572: the loop over the components; \<open>solution.get_solute(item)\<close> is the
  solute stored under the key being visited.
\<close>

fun partial_molar_loop ::
  "paramsDB \<Rightarrow> salt \<Rightarrow> bool \<Rightarrow> (string \<times> solute) list \<Rightarrow> real \<Rightarrow> log_event list
     \<Rightarrow> real \<times> log_event list" where
  "partial_molar_loop db Salt pitzer_calc [] solute_vol logged = (solute_vol, logged)"
| "partial_molar_loop db Salt pitzer_calc ((item, solute) # rest) solute_vol logged =
     (if item \<in> set [''H2O'', ''HOH'']
      then partial_molar_loop db Salt pitzer_calc rest solute_vol logged
      else if pitzer_calc \<and> item \<in> set [anion Salt, cation Salt]
      then partial_molar_loop db Salt pitzer_calc rest solute_vol logged
      else if db item partial_molar_volume \<noteq> None
      then partial_molar_loop db Salt pitzer_calc rest
             (solute_vol + get_parameter_partial_molar_volume solute * get_moles solute)
             (logged @ [Info_partial_molar_volume item])
      else partial_molar_loop db Salt pitzer_calc rest solute_vol
             (logged @ [Warning_no_partial_molar_volume item]))"

definition get_solute_volume ::
  "externals \<Rightarrow> paramsDB \<Rightarrow> solution \<Rightarrow> py_error + (real \<times> log_event list)" where
  "get_solute_volume ac db solution =
    (case pitzer_volume_part ac db solution of
       Inl e \<Rightarrow> Inl e
     | Inr (solute_vol, pitzer_calc, logged) \<Rightarrow>
         Inr (partial_molar_loop db (get_salt solution) pitzer_calc
                (components solution) solute_vol logged))"

subsection \<open>NativeEOS.equilibrate (lines 576 to 579)\<close>

text \<open>
  The body is the docstring alone: the call returns \<open>None\<close> and touches nothing. The
  model returns the solution as the call leaves it.
\<close>

definition equilibrate :: "solution \<Rightarrow> py_error + solution" where
  "equilibrate solution = Inr solution"

subsection \<open>The specification's reading of the engine\<close>

text \<open>
  The definitions of this subsection follow the words of the specification, not the code;
  the theorems below compare them with the embedded methods.
\<close>

text \<open>
  The alpha table by charge type: a 2:2 salt gets (1.4, 12); a salt whose two charges
  both have magnitude 2 or more and one of them 3 or more gets (2, 50); every other salt
  gets (2, 0).
\<close>

definition charge_type_alpha :: "int \<Rightarrow> int \<Rightarrow> real \<times> real" where
  "charge_type_alpha zc za =
     (if zc = 2 \<and> za = - 2 then (1.4, 12)
      else if 2 \<le> zc \<and> za \<le> - 2 then (2, 50)
      else (2, 0))"

text \<open>The volume variant of the table, on the two stoichiometric coefficients.\<close>

definition stoichiometry_alpha :: "int \<Rightarrow> int \<Rightarrow> real \<times> real" where
  "stoichiometry_alpha nc na =
     (if nc = 2 \<and> na = 2 then (1.4, 12)
      else if 2 \<le> nc \<and> 2 \<le> na then (2, 50)
      else (2, 0))"

text \<open>The salts of the decomposition that contain the solute, in decomposition order.\<close>

definition matching_salts :: "string \<Rightarrow> solution \<Rightarrow> (salt \<times> real) list" where
  "matching_salts solute solution =
     filter (\<lambda>(item, c). solute = cation item \<or> solute = anion item) (salt_list solution)"

text \<open>The salts of the decomposition other than the solvent pseudo-salt.\<close>

definition real_salts :: "solution \<Rightarrow> (salt \<times> real) list" where
  "real_salts solution = filter (\<lambda>(item, c). formula item \<noteq> ''HOH'') (salt_list solution)"

text \<open>
  The osmotic coefficient of one salt: the Pitzer osmotic coefficient when activity
  parameters are stored for its formula, 1 otherwise.
\<close>

definition salt_osmotic_coefficient ::
  "externals \<Rightarrow> paramsDB \<Rightarrow> solution \<Rightarrow> salt \<Rightarrow> real \<Rightarrow> real" where
  "salt_osmotic_coefficient ac db solution item c =
     (case db (formula item) pitzer_parameters_activity of
        None \<Rightarrow> 1
      | Some ps \<Rightarrow> get_osmotic_coefficient_pitzer ac
          \<lparr>arg_ionic_strength = ionic_strength solution, arg_molality = c,
           alpha1 = fst (charge_type_alpha (z_cation item) (z_anion item)),
           alpha2 = snd (charge_type_alpha (z_cation item) (z_anion item)),
           param0 = ps ! 0, param1 = ps ! 1, param2 = ps ! 2, param3 = ps ! 3,
           arg_z_cation = z_cation item, arg_z_anion = z_anion item,
           arg_nu_cation = nu_cation item, arg_nu_anion = nu_anion item,
           arg_temperature = temperature solution\<rparr>)"

definition salt_osmotic_event ::
  "externals \<Rightarrow> paramsDB \<Rightarrow> solution \<Rightarrow> salt \<Rightarrow> real \<Rightarrow> log_event" where
  "salt_osmotic_event ac db solution item c =
     (if db (formula item) pitzer_parameters_activity = None
      then Warning_no_pitzer_osmotic (formula item)
      else Info_pitzer_osmotic (salt_osmotic_coefficient ac db solution item c) (formula item))"

text \<open>A stored activity tuple, when there is one, has its four coefficients.\<close>

definition activity_tuple_ok :: "paramsDB \<Rightarrow> salt \<Rightarrow> bool" where
  "activity_tuple_ok db item =
     (case db (formula item) pitzer_parameters_activity of
        None \<Rightarrow> True
      | Some ps \<Rightarrow> 4 \<le> length ps)"

text \<open>
  What one component adds to the solute volume: nothing for water, nothing for the two
  ions of the predominant salt when the Pitzer volume was used, the stored partial
  molar volume times the moles when there is one, nothing otherwise.
\<close>

definition volume_contribution ::
  "paramsDB \<Rightarrow> salt \<Rightarrow> bool \<Rightarrow> string \<Rightarrow> solute \<Rightarrow> real" where
  "volume_contribution db Salt pitzer_used item s =
     (if item = ''H2O'' \<or> item = ''HOH'' then 0
      else if pitzer_used \<and> (item = cation Salt \<or> item = anion Salt) then 0
      else if db item partial_molar_volume = None then 0
      else get_parameter_partial_molar_volume s * get_moles s)"

definition volume_events ::
  "paramsDB \<Rightarrow> salt \<Rightarrow> bool \<Rightarrow> string \<Rightarrow> log_event list" where
  "volume_events db Salt pitzer_used item =
     (if item = ''H2O'' \<or> item = ''HOH'' then []
      else if pitzer_used \<and> (item = cation Salt \<or> item = anion Salt) then []
      else if db item partial_molar_volume = None then [Warning_no_partial_molar_volume item]
      else [Info_partial_molar_volume item])"

subsection \<open>Concrete inputs\<close>

definition NaCl :: salt where
  "NaCl = \<lparr>formula = ''NaCl'', cation = ''Na+'', anion = ''Cl-'',
           z_cation = 1, z_anion = - 1, nu_cation = 1, nu_anion = 1\<rparr>"

definition KCl :: salt where
  "KCl = \<lparr>formula = ''KCl'', cation = ''K+'', anion = ''Cl-'',
          z_cation = 1, z_anion = - 1, nu_cation = 1, nu_anion = 1\<rparr>"

definition MgSO4 :: salt where
  "MgSO4 = \<lparr>formula = ''MgSO4'', cation = ''Mg+2'', anion = ''SO4-2'',
            z_cation = 2, z_anion = - 2, nu_cation = 1, nu_anion = 1\<rparr>"

definition FeCl3 :: salt where
  "FeCl3 = \<lparr>formula = ''FeCl3'', cation = ''Fe+3'', anion = ''Cl-'',
            z_cation = 3, z_anion = - 1, nu_cation = 1, nu_anion = 3\<rparr>"

definition HOH :: salt where
  "HOH = \<lparr>formula = ''HOH'', cation = ''H+'', anion = ''OH-'',
          z_cation = 1, z_anion = - 1, nu_cation = 1, nu_anion = 1\<rparr>"

text \<open>
  A parameter store: activity tuples for NaCl, MgSO4 and FeCl3 (none for KCl), a volume
  tuple for NaCl, partial molar volumes for \<open>Na+\<close>, \<open>Cl-\<close> and \<open>K+\<close>.
\<close>

definition example_db :: paramsDB where
  "example_db f k =
     (if k = pitzer_parameters_activity \<and> f = ''NaCl'' then Some [1, 2, 3, 4]
      else if k = pitzer_parameters_activity \<and> f = ''MgSO4'' then Some [5, 6, 7, 8]
      else if k = pitzer_parameters_activity \<and> f = ''FeCl3'' then Some [9, 10, 11, 12]
      else if k = pitzer_parameters_volume \<and> f = ''NaCl'' then Some [1, 2, 3, 4, 5]
      else if k = partial_molar_volume \<and> (f = ''Na+'' \<or> f = ''Cl-'' \<or> f = ''K+'')
      then Some [1]
      else None)"

text \<open>
  A correlation library that shows which function was called and with which alphas: each
  Pitzer function returns \<open>f\<close> of its arguments, the three closed forms return 10, 20
  and 30, and the effective molality is the ionic strength.
\<close>

definition probe :: "(pitzer_args \<Rightarrow> real) \<Rightarrow> externals" where
  "probe f =
     \<lparr>get_activity_coefficient_pitzer = f,
      get_activity_coefficient_debyehuckel = (\<lambda>I z T. 10),
      get_activity_coefficient_guntelberg = (\<lambda>I z T. 20),
      get_activity_coefficient_davies = (\<lambda>I z T. 30),
      get_osmotic_coefficient_pitzer = f,
      get_apparent_volume_pitzer = (\<lambda>a. f (pitzer_args.truncate a)),
      get_effective_molality = (\<lambda>s I. I)\<rparr>"

definition an_ion :: "int \<Rightarrow> real \<Rightarrow> real \<Rightarrow> solute" where
  "an_ion z n v =
     \<lparr>get_formal_charge = z, get_moles = n, get_parameter_partial_molar_volume = v\<rparr>"

text \<open>
  A solution of \<open>Na+\<close>, \<open>K+\<close>, \<open>Cl-\<close>, \<open>Mg+2\<close> and \<open>Xe\<close> in water, decomposed into
  the salts \<open>sl\<close>, with ionic strength \<open>I\<close> and predominant salt NaCl.
\<close>

definition brine :: "real \<Rightarrow> (salt \<times> real) list \<Rightarrow> solution" where
  "brine I sl =
     \<lparr>components = [(''H2O'', an_ion 0 55 18), (''Na+'', an_ion 1 2 3),
                    (''K+'', an_ion 1 1 5), (''Cl-'', an_ion (- 1) 3 7),
                    (''Mg+2'', an_ion 2 1 4), (''Xe'', an_ion 0 1 9)],
      ionic_strength = I, temperature = 25, salt_list = sl, get_salt = NaCl,
      get_amount_molkg = (\<lambda>x. if x = ''Na+'' then 2 else if x = ''Cl-'' then 4 else 1),
      get_amount_mol = (\<lambda>x. if x = ''Na+'' then 2 else if x = ''Cl-'' then 3 else 1)\<rparr>"

section \<open>Properties\<close>

subsection \<open>Auxiliary facts\<close>

lemma bind_err_simps:
  "bind_err (Inl e) f = Inl e"
  "bind_err (Inr x) f = f x"
  by (simp_all add: bind_err_def)

text \<open>The matching loop keeps the last item that matches.\<close>

lemma match_salt_filter:
  "match_salt solute xs acc =
     (if filter (\<lambda>item. solute = cation item \<or> solute = anion item) xs = [] then acc
      else Some (last (filter (\<lambda>item. solute = cation item \<or> solute = anion item) xs)))"
  by (induction xs arbitrary: acc) auto

lemma filter_map_fst:
  "filter P (map fst xs) = map fst (filter (\<lambda>(a, b). P a) xs)"
  by (induction xs) auto

lemma match_salt_matching:
  "match_salt solute (map fst (salt_list solution)) None =
     (if matching_salts solute solution = [] then None
      else Some (fst (last (matching_salts solute solution))))"
  by (simp add: match_salt_filter filter_map_fst matching_salts_def last_map)

lemma osmotic_loop_skips_solvent:
  assumes "filter (\<lambda>(item, c). formula item \<noteq> ''HOH'') sl = []"
  shows "osmotic_loop ac db solution sl e m lg = Inr (e, m, lg)"
  using assms by (induction sl) (auto split: if_splits)

subsection \<open>Equilibration\<close>

text \<open>
  Claim C4, as stated: \<open>NativeEOS.equilibrate\<close> fails with a NotImplementedError
  for every solution. It does not: on the solution below the call returns, and the
  solution is as it was.
\<close>

theorem equilibrate_no_error_counterexample:
  "equilibrate (brine 1 [(NaCl, 2)]) = Inr (brine 1 [(NaCl, 2)]) \<and>
   equilibrate (brine 1 [(NaCl, 2)]) \<noteq> Inl NotImplementedError"
  by (simp add: equilibrate_def)

text \<open>
  Claim C4, amended: \<open>NativeEOS.equilibrate\<close> is an empty placeholder; for every
  solution it returns without raising and leaves the solution unchanged.
\<close>

theorem equilibrate_returns_unchanged: "equilibrate solution = Inr solution"
  by (simp add: equilibrate_def)

subsection \<open>The first steps of the activity coefficient\<close>

text \<open>
  Claim C10: for every solute that is not a key of the components of the solution,
  \<open>get_activity_coefficient\<close> raises KeyError at the component access, whatever the
  salts, the parameters and the ionic strength are.
\<close>

theorem unknown_solute_KeyError:
  assumes "map_of (components solution) solute = None"
  shows "get_activity_coefficient ac db solution solute = Inl KeyError"
  using assms by (simp add: get_activity_coefficient_def)

theorem unknown_solute_KeyError_witness:
  "map_of (components (brine 1 [(NaCl, 2)])) ''Ca+2'' = None \<and>
   get_activity_coefficient (probe alpha1) example_db (brine 1 [(NaCl, 2)]) ''Ca+2''
     = Inl KeyError"
proof -
  have h: "map_of (components (brine 1 [(NaCl, 2)])) ''Ca+2'' = None"
    by (simp add: brine_def)
  show ?thesis using h unknown_solute_KeyError [OF h] by simp
qed

text \<open>
  Claim C6, as stated: for every solute that no salt of the decomposition contains, the
  result is 1 and no error is raised. The solute \<open>Ca+2\<close> is in no salt of the solution
  below, and it is not one of its components either: the call raises KeyError.
\<close>

theorem no_salt_unknown_solute_counterexample:
  "matching_salts ''Ca+2'' (brine 7 [(NaCl, 2)]) = [] \<and>
   get_activity_coefficient (probe alpha1) example_db (brine 7 [(NaCl, 2)]) ''Ca+2''
     = Inl KeyError \<and>
   get_activity_coefficient (probe alpha1) example_db (brine 7 [(NaCl, 2)]) ''Ca+2''
     \<noteq> Inr (1, [Warning_no_salt ''Ca+2''])"
  by (simp add: get_activity_coefficient_def matching_salts_def brine_def NaCl_def)

text \<open>
  Claim C6, amended: for every ionic strength and every solute that is a component of
  the solution and that no salt of the decomposition has as its cation or anion,
  \<open>get_activity_coefficient\<close> logs one warning and returns 1, without raising.
\<close>

theorem no_salt_unit_activity:
  assumes "map_of (components solution) solute = Some ion"
      and "matching_salts solute solution = []"
  shows "get_activity_coefficient ac db solution solute = Inr (1, [Warning_no_salt solute])"
  using assms by (simp add: get_activity_coefficient_def match_salt_matching)

theorem no_salt_unit_activity_witness:
  "map_of (components (brine 7 [(NaCl, 2)])) ''Xe'' = Some (an_ion 0 1 9) \<and>
   matching_salts ''Xe'' (brine 7 [(NaCl, 2)]) = [] \<and>
   get_activity_coefficient (probe alpha1) example_db (brine 7 [(NaCl, 2)]) ''Xe''
     = Inr (1, [Warning_no_salt ''Xe''])"
proof -
  have h1: "map_of (components (brine 7 [(NaCl, 2)])) ''Xe'' = Some (an_ion 0 1 9)"
    by (simp add: brine_def)
  have h2: "matching_salts ''Xe'' (brine 7 [(NaCl, 2)]) = []"
    by (simp add: matching_salts_def brine_def NaCl_def)
  show ?thesis using h1 h2 no_salt_unit_activity [OF h1 h2] by simp
qed

subsection \<open>The osmotic coefficient\<close>

text \<open>
  Claim C5: when the decomposition holds no salt other than the solvent pseudo-salt
  \<open>HOH\<close>, both sums of \<open>get_osmotic_coefficient\<close> are still 0 at the final division,
  which nothing guards: the call yields no value. In Python the division of 0 by 0
  surfaces as ZeroDivisionError, raised by the operator and not by a check of the method.
\<close>

theorem osmotic_only_solvent_ZeroDivisionError:
  assumes "real_salts solution = []"
  shows "get_osmotic_coefficient ac db solution = Inl ZeroDivisionError"
  using assms
  by (simp add: get_osmotic_coefficient_def real_salts_def osmotic_loop_skips_solvent
        py_truediv_def bind_err_def)

theorem osmotic_only_solvent_ZeroDivisionError_witness:
  "real_salts (brine 0 [(HOH, 55)]) = [] \<and>
   get_osmotic_coefficient (probe alpha1) example_db (brine 0 [(HOH, 55)])
     = Inl ZeroDivisionError"
proof -
  have h: "real_salts (brine 0 [(HOH, 55)]) = []"
    by (simp add: real_salts_def brine_def HOH_def)
  show ?thesis using h osmotic_only_solvent_ZeroDivisionError [OF h] by simp
qed

subsection \<open>Facts about the concrete inputs and the index chain\<close>

lemma example_db_simps:
  "example_db ''NaCl'' pitzer_parameters_activity = Some [1, 2, 3, 4]"
  "example_db ''MgSO4'' pitzer_parameters_activity = Some [5, 6, 7, 8]"
  "example_db ''FeCl3'' pitzer_parameters_activity = Some [9, 10, 11, 12]"
  "example_db ''KCl'' pitzer_parameters_activity = None"
  "example_db ''NaCl'' pitzer_parameters_volume = Some [1, 2, 3, 4, 5]"
  by (simp_all add: example_db_def)

lemma py_index_four:
  assumes "4 \<le> length ps"
  shows "py_index ps 0 = Inr (ps ! 0)" "py_index ps (Suc 0) = Inr (ps ! 1)"
    "py_index ps 1 = Inr (ps ! 1)"
    "py_index ps 2 = Inr (ps ! 2)" "py_index ps 3 = Inr (ps ! 3)"
  using assms by (auto simp: py_index_def)

lemma py_index_short:
  assumes "length ps < 4"
  shows "bind_err (py_index ps 0) (\<lambda>p0. bind_err (py_index ps (Suc 0)) (\<lambda>p1.
           bind_err (py_index ps 2) (\<lambda>p2. bind_err (py_index ps 3) (\<lambda>p3. f p0 p1 p2 p3))))
         = Inl IndexError"
  using assms by (auto simp: py_index_def bind_err_def)

lemma brine_K_component:
  "map_of (components (brine I sl)) ''K+'' = Some (an_ion 1 1 5)"
  by (simp add: brine_def)

lemma brine_K_matching:
  "matching_salts ''K+'' (brine I [(NaCl, 2), (KCl, 1)]) = [(KCl, 1)]"
  by (simp add: matching_salts_def brine_def NaCl_def KCl_def)

subsection \<open>The alpha table\<close>

lemma charge_table_eq:
  "(if 2 \<le> zc \<and> za \<le> - 2
    then (if 3 \<le> zc \<or> za \<le> - 3 then (2.0, 50.0) else (1.4, 12.0))
    else (2.0, 0)) = charge_type_alpha zc (za::int)"
  by (auto simp: charge_type_alpha_def)

lemma osmotic_term_spec:
  assumes "activity_tuple_ok db item"
  shows "osmotic_term ac db solution item c =
           Inr (c * salt_osmotic_coefficient ac db solution item c,
                salt_osmotic_event ac db solution item c)"
proof (cases "db (formula item) pitzer_parameters_activity")
  case None
  then show ?thesis
    by (simp add: osmotic_term_def salt_osmotic_coefficient_def salt_osmotic_event_def
          split: prod.splits)
next
  case (Some ps)
  with assms have len: "4 \<le> length ps"
    by (simp add: activity_tuple_ok_def)
  then have idx: "py_index ps 0 = Inr (ps ! 0)" "py_index ps (Suc 0) = Inr (ps ! 1)"
      "py_index ps 2 = Inr (ps ! 2)" "py_index ps 3 = Inr (ps ! 3)"
    by (auto simp: py_index_def)
  show ?thesis
    unfolding osmotic_term_def charge_table_eq
    by (simp add: Some idx bind_err_simps salt_osmotic_coefficient_def
          salt_osmotic_event_def Let_def split: prod.splits)
qed

text \<open>
  Claim C1, as stated: in both methods a salt with an ion of charge magnitude 3 or more
  gets alpha1 = 2 and alpha2 = 50. For the 3:1 salt FeCl3 the Pitzer call of the osmotic
  coefficient receives alpha1 = 2 and alpha2 = 0, and so does the Pitzer call of the
  activity coefficient: the library below returns the alpha it is given.
\<close>

theorem alpha_three_one_salt_counterexample:
  "osmotic_term (probe alpha1) example_db (brine 1 [(FeCl3, 1)]) FeCl3 1
     = Inr (2, Info_pitzer_osmotic 2 ''FeCl3'') \<and>
   osmotic_term (probe alpha2) example_db (brine 1 [(FeCl3, 1)]) FeCl3 1
     = Inr (0, Info_pitzer_osmotic 0 ''FeCl3'') \<and>
   get_osmotic_coefficient (probe alpha2) example_db (brine 1 [(FeCl3, 1)])
     = Inr (0, [Info_pitzer_osmotic 0 ''FeCl3'']) \<and>
   get_activity_coefficient (probe alpha2) example_db (brine 1 [(FeCl3, 1)]) ''Cl-''
     = Inr (0, [Info_pitzer_activity ''Cl-'' 0 ''FeCl3''])"
  by (simp add: osmotic_term_def get_osmotic_coefficient_def get_activity_coefficient_def
        example_db_simps FeCl3_def brine_def probe_def py_index_def bind_err_def
        py_truediv_def an_ion_def)

text \<open>
  Claim C1, amended: for every salt that \<open>get_osmotic_coefficient\<close> passes to the
  Pitzer call, the pair alpha1, alpha2 is chosen from the two charges: (1.4, 12) for a
  2:2 salt; (2, 50) when the cation charge is at least 2, the anion charge at most -2 and
  one of them has magnitude 3 or more; (2, 0) for every other salt, a 3:1 or a 1:1 salt
  among them.
\<close>

theorem osmotic_alpha_by_charge_type:
  assumes "db (formula item) pitzer_parameters_activity = Some ps"
      and "4 \<le> length ps"
  shows "osmotic_term ac db solution item c =
           Inr (c * get_osmotic_coefficient_pitzer ac
                  \<lparr>arg_ionic_strength = ionic_strength solution, arg_molality = c,
                   alpha1 = fst (charge_type_alpha (z_cation item) (z_anion item)),
                   alpha2 = snd (charge_type_alpha (z_cation item) (z_anion item)),
                   param0 = ps ! 0, param1 = ps ! 1, param2 = ps ! 2, param3 = ps ! 3,
                   arg_z_cation = z_cation item, arg_z_anion = z_anion item,
                   arg_nu_cation = nu_cation item, arg_nu_anion = nu_anion item,
                   arg_temperature = temperature solution\<rparr>,
                Info_pitzer_osmotic (get_osmotic_coefficient_pitzer ac
                  \<lparr>arg_ionic_strength = ionic_strength solution, arg_molality = c,
                   alpha1 = fst (charge_type_alpha (z_cation item) (z_anion item)),
                   alpha2 = snd (charge_type_alpha (z_cation item) (z_anion item)),
                   param0 = ps ! 0, param1 = ps ! 1, param2 = ps ! 2, param3 = ps ! 3,
                   arg_z_cation = z_cation item, arg_z_anion = z_anion item,
                   arg_nu_cation = nu_cation item, arg_nu_anion = nu_anion item,
                   arg_temperature = temperature solution\<rparr>) (formula item))"
proof -
  have "activity_tuple_ok db item"
    using assms by (simp add: activity_tuple_ok_def)
  then show ?thesis
    using assms(1)
    by (simp add: osmotic_term_spec salt_osmotic_coefficient_def salt_osmotic_event_def)
qed

theorem osmotic_alpha_by_charge_type_witness:
  "example_db (formula MgSO4) pitzer_parameters_activity = Some [5, 6, 7, 8] \<and>
   4 \<le> length [5, 6, 7, 8 :: real] \<and>
   osmotic_term (probe alpha1) example_db (brine 1 [(MgSO4, 3)]) MgSO4 3
     = Inr (3 * 1.4, Info_pitzer_osmotic 1.4 ''MgSO4'') \<and>
   osmotic_term (probe alpha2) example_db (brine 1 [(MgSO4, 3)]) MgSO4 3
     = Inr (3 * 12, Info_pitzer_osmotic 12 ''MgSO4'')"
proof -
  have h1: "example_db (formula MgSO4) pitzer_parameters_activity = Some [5, 6, 7, 8]"
    by (simp add: MgSO4_def example_db_simps)
  have h2: "4 \<le> length [5, 6, 7, 8 :: real]" by simp
  show ?thesis
    using h1 h2
      osmotic_alpha_by_charge_type [where db = example_db and item = MgSO4
        and ac = "probe alpha1" and solution = "brine 1 [(MgSO4, 3)]" and c = 3, OF h1 h2]
      osmotic_alpha_by_charge_type [where db = example_db and item = MgSO4
        and ac = "probe alpha2" and solution = "brine 1 [(MgSO4, 3)]" and c = 3, OF h1 h2]
    by (simp add: probe_def charge_type_alpha_def MgSO4_def)
qed

text \<open>
  The table of \<open>get_activity_coefficient\<close> reads the stoichiometric coefficients
  where the table of the osmotic coefficient reads the charges. For the 2:2 salt MgSO4,
  with both coefficients 1, the activity call receives (2, 0) and the osmotic call
  (1.4, 12).
\<close>

lemma activity_alpha_MgSO4_evaluation:
  "get_activity_coefficient (probe alpha1) example_db (brine 1 [(MgSO4, 1)]) ''Mg+2''
     = Inr (2, [Info_pitzer_activity ''Mg+2'' 2 ''MgSO4'']) \<and>
   get_activity_coefficient (probe alpha2) example_db (brine 1 [(MgSO4, 1)]) ''Mg+2''
     = Inr (0, [Info_pitzer_activity ''Mg+2'' 0 ''MgSO4'']) \<and>
   get_osmotic_coefficient (probe alpha1) example_db (brine 1 [(MgSO4, 1)])
     = Inr (1.4, [Info_pitzer_osmotic 1.4 ''MgSO4'']) \<and>
   get_osmotic_coefficient (probe alpha2) example_db (brine 1 [(MgSO4, 1)])
     = Inr (12, [Info_pitzer_osmotic 12 ''MgSO4''])"
  by (simp add: osmotic_term_def get_osmotic_coefficient_def get_activity_coefficient_def
        example_db_simps MgSO4_def brine_def probe_def py_index_def bind_err_def
        py_truediv_def an_ion_def)

subsection \<open>Selection of the activity model\<close>

text \<open>
  Claim C2: for a solute of the solution whose last matching salt is \<open>S\<close>, the model
  is chosen in this order. With activity parameters stored for the formula of \<open>S\<close> the
  Pitzer function is called, at every ionic strength (a stored tuple shorter than four
  raises IndexError at the call). Without them: Debye-Huckel up to and including 0.005,
  Guntelberg above 0.005 up to and including 0.1, Davies above 0.1 up to and including
  0.5, and above 0.5 the value 1 with a warning.
\<close>

theorem activity_model_selection:
  assumes comp: "map_of (components solution) solute = Some ion"
      and ms: "matching_salts solute solution \<noteq> []"
      and S: "S = fst (last (matching_salts solute solution))"
  shows
    "(\<forall>ps. db (formula S) pitzer_parameters_activity = Some ps \<and> 4 \<le> length ps \<longrightarrow>
        (\<exists>a1 a2 g.
           g = get_activity_coefficient_pitzer ac
                 \<lparr>arg_ionic_strength = ionic_strength solution,
                  arg_molality = get_effective_molality ac S (ionic_strength solution),
                  alpha1 = a1, alpha2 = a2,
                  param0 = ps ! 0, param1 = ps ! 1, param2 = ps ! 2, param3 = ps ! 3,
                  arg_z_cation = z_cation S, arg_z_anion = z_anion S,
                  arg_nu_cation = nu_cation S, arg_nu_anion = nu_anion S,
                  arg_temperature = temperature solution\<rparr> \<and>
           get_activity_coefficient ac db solution solute =
             Inr (g, [Info_pitzer_activity solute g (formula S)]))) \<and>
     (\<forall>ps. db (formula S) pitzer_parameters_activity = Some ps \<and> length ps < 4 \<longrightarrow>
        get_activity_coefficient ac db solution solute = Inl IndexError) \<and>
     (db (formula S) pitzer_parameters_activity = None \<and> ionic_strength solution \<le> 0.005 \<longrightarrow>
        get_activity_coefficient ac db solution solute =
          Inr (get_activity_coefficient_debyehuckel ac (ionic_strength solution)
                 (get_formal_charge ion) (temperature solution),
               [Info_debyehuckel (ionic_strength solution)])) \<and>
     (db (formula S) pitzer_parameters_activity = None \<and>
      0.005 < ionic_strength solution \<and> ionic_strength solution \<le> 0.1 \<longrightarrow>
        get_activity_coefficient ac db solution solute =
          Inr (get_activity_coefficient_guntelberg ac (ionic_strength solution)
                 (get_formal_charge ion) (temperature solution),
               [Info_guntelberg (ionic_strength solution)])) \<and>
     (db (formula S) pitzer_parameters_activity = None \<and>
      0.1 < ionic_strength solution \<and> ionic_strength solution \<le> 0.5 \<longrightarrow>
        get_activity_coefficient ac db solution solute =
          Inr (get_activity_coefficient_davies ac (ionic_strength solution)
                 (get_formal_charge ion) (temperature solution),
               [Info_davies (ionic_strength solution)])) \<and>
     (db (formula S) pitzer_parameters_activity = None \<and> 0.5 < ionic_strength solution \<longrightarrow>
        get_activity_coefficient ac db solution solute =
          Inr (1, [Warning_ionic_strength_too_high solute]))"
proof -
  have sel: "match_salt solute (map fst (salt_list solution)) None = Some S"
    using ms S by (simp add: match_salt_matching)
  have pitzer: "\<exists>a1 a2 g.
           g = get_activity_coefficient_pitzer ac
                 \<lparr>arg_ionic_strength = ionic_strength solution,
                  arg_molality = get_effective_molality ac S (ionic_strength solution),
                  alpha1 = a1, alpha2 = a2,
                  param0 = ps ! 0, param1 = ps ! 1, param2 = ps ! 2, param3 = ps ! 3,
                  arg_z_cation = z_cation S, arg_z_anion = z_anion S,
                  arg_nu_cation = nu_cation S, arg_nu_anion = nu_anion S,
                  arg_temperature = temperature solution\<rparr> \<and>
           get_activity_coefficient ac db solution solute =
             Inr (g, [Info_pitzer_activity solute g (formula S)])"
    if "db (formula S) pitzer_parameters_activity = Some ps" "4 \<le> length ps" for ps
    using that
    by (simp add: get_activity_coefficient_def comp sel py_index_four bind_err_simps
          Let_def split: prod.splits) blast
  have short: "get_activity_coefficient ac db solution solute = Inl IndexError"
    if "db (formula S) pitzer_parameters_activity = Some ps" "length ps < 4" for ps
    using that
    by (simp add: get_activity_coefficient_def comp sel py_index_short
          Let_def split: prod.splits)
  have rest:
    "db (formula S) pitzer_parameters_activity = None \<Longrightarrow>
     get_activity_coefficient ac db solution solute =
       (if ionic_strength solution \<le> 0.005 then
          Inr (get_activity_coefficient_debyehuckel ac (ionic_strength solution)
                 (get_formal_charge ion) (temperature solution),
               [Info_debyehuckel (ionic_strength solution)])
        else if ionic_strength solution \<le> 0.1 then
          Inr (get_activity_coefficient_guntelberg ac (ionic_strength solution)
                 (get_formal_charge ion) (temperature solution),
               [Info_guntelberg (ionic_strength solution)])
        else if ionic_strength solution \<le> 0.5 then
          Inr (get_activity_coefficient_davies ac (ionic_strength solution)
                 (get_formal_charge ion) (temperature solution),
               [Info_davies (ionic_strength solution)])
        else Inr (1, [Warning_ionic_strength_too_high solute]))"
    by (simp add: get_activity_coefficient_def comp sel)
  show ?thesis
    using pitzer short rest by auto
qed


theorem activity_model_selection_witness:
  "map_of (components (brine 0.005 [(NaCl, 2), (KCl, 1)])) ''K+'' = Some (an_ion 1 1 5) \<and>
   matching_salts ''K+'' (brine 0.005 [(NaCl, 2), (KCl, 1)]) \<noteq> [] \<and>
   KCl = fst (last (matching_salts ''K+'' (brine 0.005 [(NaCl, 2), (KCl, 1)]))) \<and>
   example_db (formula KCl) pitzer_parameters_activity = None \<and>
   get_activity_coefficient (probe alpha1) example_db
       (brine 0.005 [(NaCl, 2), (KCl, 1)]) ''K+'' = Inr (10, [Info_debyehuckel 0.005]) \<and>
   get_activity_coefficient (probe alpha1) example_db
       (brine 0.1 [(NaCl, 2), (KCl, 1)]) ''K+'' = Inr (20, [Info_guntelberg 0.1]) \<and>
   get_activity_coefficient (probe alpha1) example_db
       (brine 0.5 [(NaCl, 2), (KCl, 1)]) ''K+'' = Inr (30, [Info_davies 0.5]) \<and>
   get_activity_coefficient (probe alpha1) example_db
       (brine 0.6 [(NaCl, 2), (KCl, 1)]) ''K+''
     = Inr (1, [Warning_ionic_strength_too_high ''K+''])"
proof -
  have h1: "map_of (components (brine I [(NaCl, 2), (KCl, 1)])) ''K+'' = Some (an_ion 1 1 5)"
    for I by (rule brine_K_component)
  have h2: "matching_salts ''K+'' (brine I [(NaCl, 2), (KCl, 1)]) \<noteq> []" for I
    by (simp add: brine_K_matching)
  have h3: "KCl = fst (last (matching_salts ''K+'' (brine I [(NaCl, 2), (KCl, 1)])))" for I
    by (simp add: brine_K_matching)
  have none: "example_db (formula KCl) pitzer_parameters_activity = None"
    by (simp add: KCl_def example_db_simps)
  have I: "ionic_strength (brine I sl) = I" "temperature (brine I sl) = 25" for I sl
    by (simp_all add: brine_def)
  note sel = activity_model_selection [where db = example_db and ac = "probe alpha1"
      and S = KCl and solute = "''K+''" and ion = "an_ion 1 1 5"]
  show ?thesis
    using h1 [of "0.005"] h2 [of "0.005"] h3 [of "0.005"] none
      sel [OF h1 [of "0.005"] h2 [of "0.005"] h3 [of "0.005"]]
      sel [OF h1 [of "0.1"] h2 [of "0.1"] h3 [of "0.1"]]
      sel [OF h1 [of "0.5"] h2 [of "0.5"] h3 [of "0.5"]]
      sel [OF h1 [of "0.6"] h2 [of "0.6"] h3 [of "0.6"]]
    by (simp add: I probe_def)
qed

subsection \<open>The salt of a solute\<close>

lemma matching_salts_singleton:
  assumes "x \<in> set (matching_salts solute solution)"
  shows "matching_salts solute (solution\<lparr>salt_list := [x]\<rparr>) = [x]"
  using assms by (auto simp: matching_salts_def)

lemma activity_coefficient_cong:
  assumes "components s1 = components s2"
      and "ionic_strength s1 = ionic_strength s2"
      and "temperature s1 = temperature s2"
      and "match_salt solute (map fst (salt_list s1)) None
             = match_salt solute (map fst (salt_list s2)) None"
  shows "get_activity_coefficient ac db s1 solute = get_activity_coefficient ac db s2 solute"
  by (simp only: get_activity_coefficient_def assms)

text \<open>
  Claim C9: when several salts of the decomposition contain the solute, the matching
  loop ends with the last of them in decomposition order, and the activity coefficient
  is the one computed from that salt alone.
\<close>

theorem last_matching_salt_used:
  assumes "matching_salts solute solution \<noteq> []"
  shows "match_salt solute (map fst (salt_list solution)) None =
           Some (fst (last (matching_salts solute solution))) \<and>
         get_activity_coefficient ac db solution solute =
           get_activity_coefficient ac db
             (solution\<lparr>salt_list := [last (matching_salts solute solution)]\<rparr>) solute"
proof -
  let ?x = "last (matching_salts solute solution)"
  have "?x \<in> set (matching_salts solute solution)"
    using assms by simp
  then have single: "matching_salts solute (solution\<lparr>salt_list := [?x]\<rparr>) = [?x]"
    by (rule matching_salts_singleton)
  have a: "match_salt solute (map fst (salt_list solution)) None = Some (fst ?x)"
    using assms by (simp add: match_salt_matching)
  have b: "match_salt solute (map fst (salt_list (solution\<lparr>salt_list := [?x]\<rparr>))) None
             = Some (fst ?x)"
    using single by (simp only: match_salt_matching) simp
  then have b': "match_salt solute [fst ?x] None = Some (fst ?x)"
    by (simp del: match_salt.simps)
  have "get_activity_coefficient ac db solution solute =
          get_activity_coefficient ac db (solution\<lparr>salt_list := [?x]\<rparr>) solute"
    by (rule activity_coefficient_cong) (simp_all add: a b' del: match_salt.simps)
  with a show ?thesis by simp
qed

theorem last_matching_salt_used_witness:
  "matching_salts ''Cl-'' (brine 0.05 [(NaCl, 2), (KCl, 1)]) \<noteq> [] \<and>
   last (matching_salts ''Cl-'' (brine 0.05 [(NaCl, 2), (KCl, 1)])) = (KCl, 1) \<and>
   get_activity_coefficient (probe alpha1) example_db
       (brine 0.05 [(NaCl, 2), (KCl, 1)]) ''Cl-''
     = get_activity_coefficient (probe alpha1) example_db
         (brine 0.05 [(KCl, 1)]) ''Cl-'' \<and>
   get_activity_coefficient (probe alpha1) example_db
       (brine 0.05 [(KCl, 1)]) ''Cl-'' = Inr (20, [Info_guntelberg 0.05]) \<and>
   get_activity_coefficient (probe alpha1) example_db
       (brine 0.05 [(NaCl, 2)]) ''Cl-'' = Inr (2, [Info_pitzer_activity ''Cl-'' 2 ''NaCl''])"
proof -
  have m: "matching_salts ''Cl-'' (brine I [(NaCl, 2), (KCl, 1)]) = [(NaCl, 2), (KCl, 1)]"
    for I by (simp add: matching_salts_def brine_def NaCl_def KCl_def)
  have h: "matching_salts ''Cl-'' (brine 0.05 [(NaCl, 2), (KCl, 1)]) \<noteq> []"
    by (simp add: m)
  have upd: "(brine I [(NaCl, 2), (KCl, 1)])\<lparr>salt_list := [(KCl, 1)]\<rparr>
               = brine I [(KCl, 1)]" for I
    by (simp add: brine_def)
  have k: "get_activity_coefficient (probe alpha1) example_db
             (brine 0.05 [(KCl, 1)]) ''Cl-'' = Inr (20, [Info_guntelberg 0.05])"
    by (simp add: get_activity_coefficient_def brine_def KCl_def example_db_simps
          probe_def an_ion_def)
  have n: "get_activity_coefficient (probe alpha1) example_db
             (brine 0.05 [(NaCl, 2)]) ''Cl-''
           = Inr (2, [Info_pitzer_activity ''Cl-'' 2 ''NaCl''])"
    by (simp add: get_activity_coefficient_def brine_def NaCl_def example_db_simps
          probe_def an_ion_def py_index_def bind_err_def)
  show ?thesis
    using h last_matching_salt_used [OF h, of "probe alpha1" example_db] k n
    by (simp add: m upd)
qed

subsection \<open>The osmotic coefficient as a weighted average\<close>

lemma osmotic_loop_sums:
  assumes "list_all (\<lambda>(item, c). activity_tuple_ok db item)
             (filter (\<lambda>(item, c). formula item \<noteq> ''HOH'') sl)"
  shows "osmotic_loop ac db solution sl e m lg =
           Inr (e + sum_list (map (\<lambda>(item, c). c * salt_osmotic_coefficient ac db solution item c)
                        (filter (\<lambda>(item, c). formula item \<noteq> ''HOH'') sl)),
                m + sum_list (map snd (filter (\<lambda>(item, c). formula item \<noteq> ''HOH'') sl)),
                lg @ map (\<lambda>(item, c). salt_osmotic_event ac db solution item c)
                       (filter (\<lambda>(item, c). formula item \<noteq> ''HOH'') sl))"
  using assms
proof (induction sl arbitrary: e m lg)
  case Nil
  then show ?case by simp
next
  case (Cons x sl)
  obtain item c where x: "x = (item, c)" by (cases x)
  show ?case
  proof (cases "formula item = ''HOH''")
    case True
    with Cons x show ?thesis by simp
  next
    case False
    with Cons.prems x have ok: "activity_tuple_ok db item"
      and rest: "list_all (\<lambda>(item, c). activity_tuple_ok db item)
                   (filter (\<lambda>(item, c). formula item \<noteq> ''HOH'') sl)"
      by simp_all
    show ?thesis
      using False x Cons.IH [OF rest] by (simp add: osmotic_term_spec [OF ok] algebra_simps)
  qed
qed

text \<open>
  Claim C3: \<open>get_osmotic_coefficient\<close> returns the average, weighted by concentration,
  over the salts of the decomposition other than \<open>HOH\<close>: a salt with stored activity
  parameters contributes its concentration times its Pitzer osmotic coefficient, a salt
  without them its concentration times 1 and a warning, and the sum is divided by the sum
  of the concentrations. For two salts at the same concentration the result is the mean
  of their two coefficients. (The stored tuples have their four coefficients and the
  concentrations do not sum to zero.)
\<close>

theorem osmotic_weighted_average:
  assumes ok: "list_all (\<lambda>(item, c). activity_tuple_ok db item) (real_salts solution)"
      and nz: "sum_list (map snd (real_salts solution)) \<noteq> 0"
  shows "get_osmotic_coefficient ac db solution =
           Inr (sum_list (map (\<lambda>(item, c). c * salt_osmotic_coefficient ac db solution item c)
                            (real_salts solution))
                / sum_list (map snd (real_salts solution)),
                map (\<lambda>(item, c). salt_osmotic_event ac db solution item c)
                  (real_salts solution)) \<and>
         (\<forall>A B c. real_salts solution = [(A, c), (B, c)] \<longrightarrow>
            get_osmotic_coefficient ac db solution =
              Inr ((salt_osmotic_coefficient ac db solution A c
                    + salt_osmotic_coefficient ac db solution B c) / 2,
                   [salt_osmotic_event ac db solution A c,
                    salt_osmotic_event ac db solution B c]))"
proof -
  have main: "get_osmotic_coefficient ac db solution =
           Inr (sum_list (map (\<lambda>(item, c). c * salt_osmotic_coefficient ac db solution item c)
                            (real_salts solution))
                / sum_list (map snd (real_salts solution)),
                map (\<lambda>(item, c). salt_osmotic_event ac db solution item c)
                  (real_salts solution))"
    using ok nz
    by (simp add: get_osmotic_coefficient_def real_salts_def osmotic_loop_sums
          py_truediv_def bind_err_def)
  have two: "get_osmotic_coefficient ac db solution =
              Inr ((salt_osmotic_coefficient ac db solution A c
                    + salt_osmotic_coefficient ac db solution B c) / 2,
                   [salt_osmotic_event ac db solution A c,
                    salt_osmotic_event ac db solution B c])"
    if eq: "real_salts solution = [(A, c), (B, c)]" for A B c
  proof -
    from nz eq have c: "c \<noteq> 0" by simp
    have "(c * salt_osmotic_coefficient ac db solution A c
           + c * salt_osmotic_coefficient ac db solution B c) / (c + c)
          = (salt_osmotic_coefficient ac db solution A c
             + salt_osmotic_coefficient ac db solution B c) / 2"
      using c by (simp add: field_simps)
    then show ?thesis
      by (simp add: main eq)
  qed
  from main two show ?thesis by blast
qed


theorem osmotic_weighted_average_witness:
  "list_all (\<lambda>(item, c). activity_tuple_ok example_db item)
     (real_salts (brine 1 [(HOH, 55), (NaCl, 2), (KCl, 2)])) \<and>
   sum_list (map snd (real_salts (brine 1 [(HOH, 55), (NaCl, 2), (KCl, 2)]))) \<noteq> 0 \<and>
   real_salts (brine 1 [(HOH, 55), (NaCl, 2), (KCl, 2)]) = [(NaCl, 2), (KCl, 2)] \<and>
   get_osmotic_coefficient (probe alpha1) example_db
       (brine 1 [(HOH, 55), (NaCl, 2), (KCl, 2)])
     = Inr (3 / 2, [Info_pitzer_osmotic 2 ''NaCl'', Warning_no_pitzer_osmotic ''KCl''])"
proof -
  let ?s = "brine 1 [(HOH, 55), (NaCl, 2), (KCl, 2)]"
  have rs: "real_salts ?s = [(NaCl, 2), (KCl, 2)]"
    by (simp add: real_salts_def brine_def HOH_def NaCl_def KCl_def)
  have db: "example_db (formula NaCl) pitzer_parameters_activity = Some [1, 2, 3, 4]"
    "example_db (formula KCl) pitzer_parameters_activity = None"
    by (simp_all add: NaCl_def KCl_def example_db_simps)
  have h1: "list_all (\<lambda>(item, c). activity_tuple_ok example_db item) (real_salts ?s)"
    by (simp add: rs activity_tuple_ok_def db)
  have h2: "sum_list (map snd (real_salts ?s)) \<noteq> 0"
    by (simp add: rs)
  have phi: "salt_osmotic_coefficient (probe alpha1) example_db ?s NaCl 2 = 2"
    "salt_osmotic_coefficient (probe alpha1) example_db ?s KCl 2 = 1"
    by (simp_all add: salt_osmotic_coefficient_def example_db_simps probe_def
          charge_type_alpha_def NaCl_def KCl_def)
  have ev: "salt_osmotic_event (probe alpha1) example_db ?s NaCl 2
              = Info_pitzer_osmotic 2 ''NaCl''"
    "salt_osmotic_event (probe alpha1) example_db ?s KCl 2 = Warning_no_pitzer_osmotic ''KCl''"
    by (simp_all add: salt_osmotic_event_def db phi) (simp_all add: NaCl_def KCl_def)?
  from osmotic_weighted_average [OF h1 h2, of "probe alpha1"]
  have "get_osmotic_coefficient (probe alpha1) example_db ?s =
          Inr ((salt_osmotic_coefficient (probe alpha1) example_db ?s NaCl 2
                + salt_osmotic_coefficient (probe alpha1) example_db ?s KCl 2) / 2,
               [salt_osmotic_event (probe alpha1) example_db ?s NaCl 2,
                salt_osmotic_event (probe alpha1) example_db ?s KCl 2])"
    using rs by blast
  then show ?thesis
    using h1 h2 rs by (simp add: phi ev)
qed

subsection \<open>The solute volume\<close>

lemma partial_molar_loop_step:
  "partial_molar_loop db Salt pitzer_calc ((item, s) # rest) v lg =
     partial_molar_loop db Salt pitzer_calc rest
       (v + volume_contribution db Salt pitzer_calc item s)
       (lg @ volume_events db Salt pitzer_calc item)"
  by (auto simp: volume_contribution_def volume_events_def)

lemma partial_molar_loop_sums:
  "partial_molar_loop db Salt pitzer_calc comps v lg =
     (v + sum_list (map (\<lambda>(item, s). volume_contribution db Salt pitzer_calc item s) comps),
      lg @ concat (map (\<lambda>(item, s). volume_events db Salt pitzer_calc item) comps))"
proof (induction comps arbitrary: v lg)
  case Nil
  then show ?case by simp
next
  case (Cons x comps)
  obtain item s where x: "x = (item, s)" by (cases x)
  show ?case
    unfolding x
    by (simp add: partial_molar_loop_step Cons.IH del: partial_molar_loop.simps)
qed

lemma stoichiometry_table_eq:
  "(if 2 \<le> nc \<and> 2 \<le> na
    then (if 3 \<le> nc \<or> 3 \<le> na then (2, 50) else (1.4, 12))
    else (2, 0)) = stoichiometry_alpha nc (na::int)"
  by (auto simp: stoichiometry_alpha_def)

lemma py_index_five:
  assumes "5 \<le> length ps"
  shows "py_index ps 0 = Inr (ps ! 0)" "py_index ps (Suc 0) = Inr (ps ! 1)"
    "py_index ps 1 = Inr (ps ! 1)"
    "py_index ps 2 = Inr (ps ! 2)" "py_index ps 3 = Inr (ps ! 3)"
    "py_index ps 4 = Inr (ps ! 4)"
  using assms by (auto simp: py_index_def)

lemma pitzer_volume_part_spec:
  assumes ps: "db (formula (get_salt solution)) pitzer_parameters_volume = Some ps"
      and len: "5 \<le> length ps"
      and nz: "nu_cation (get_salt solution) \<noteq> 0" "nu_anion (get_salt solution) \<noteq> 0"
  shows "pitzer_volume_part ac db solution =
           Inr (get_apparent_volume_pitzer ac
                  \<lparr>arg_ionic_strength = ionic_strength solution,
                   arg_molality =
                     (get_amount_molkg solution (cation (get_salt solution))
                      + get_amount_molkg solution (anion (get_salt solution))) / 2,
                   alpha1 = fst (stoichiometry_alpha (nu_cation (get_salt solution))
                                   (nu_anion (get_salt solution))),
                   alpha2 = snd (stoichiometry_alpha (nu_cation (get_salt solution))
                                   (nu_anion (get_salt solution))),
                   param0 = ps ! 0, param1 = ps ! 1, param2 = ps ! 2, param3 = ps ! 3,
                   arg_z_cation = z_cation (get_salt solution),
                   arg_z_anion = z_anion (get_salt solution),
                   arg_nu_cation = nu_cation (get_salt solution),
                   arg_nu_anion = nu_anion (get_salt solution),
                   arg_temperature = temperature solution,
                   param4 = ps ! 4\<rparr>
                * ((get_amount_mol solution (cation (get_salt solution))
                      / real_of_int (nu_cation (get_salt solution))
                    + get_amount_mol solution (anion (get_salt solution))
                      / real_of_int (nu_anion (get_salt solution))) / 2),
                True, [Info_pitzer_volume (formula (get_salt solution))])"
  unfolding pitzer_volume_part_def stoichiometry_table_eq
  by (simp add: ps py_index_five [OF len] nz bind_err_simps py_truediv_def Let_def
        split: prod.splits)


text \<open>
  Claim C7: when Pitzer volume parameters are stored for the predominant salt \<open>S\<close>, the
  molality passed to the apparent-volume function is the mean of the molalities of the
  cation and of the anion, the alpha pair comes from the table on the two stoichiometric
  coefficients (both at least 2), and the apparent volume is multiplied by the mean of
  the two mole counts, each divided by its stoichiometric coefficient. (The stored tuple
  has its five coefficients and the stoichiometric coefficients are not zero.)
\<close>

theorem solute_volume_pitzer_salt:
  assumes S: "S = get_salt solution"
      and ps: "db (formula S) pitzer_parameters_volume = Some ps"
      and len: "5 \<le> length ps"
      and nz: "nu_cation S \<noteq> 0" "nu_anion S \<noteq> 0"
  shows "get_solute_volume ac db solution =
           Inr (get_apparent_volume_pitzer ac
                  \<lparr>arg_ionic_strength = ionic_strength solution,
                   arg_molality = (get_amount_molkg solution (cation S)
                                   + get_amount_molkg solution (anion S)) / 2,
                   alpha1 = fst (stoichiometry_alpha (nu_cation S) (nu_anion S)),
                   alpha2 = snd (stoichiometry_alpha (nu_cation S) (nu_anion S)),
                   param0 = ps ! 0, param1 = ps ! 1, param2 = ps ! 2, param3 = ps ! 3,
                   arg_z_cation = z_cation S, arg_z_anion = z_anion S,
                   arg_nu_cation = nu_cation S, arg_nu_anion = nu_anion S,
                   arg_temperature = temperature solution,
                   param4 = ps ! 4\<rparr>
                * ((get_amount_mol solution (cation S) / real_of_int (nu_cation S)
                    + get_amount_mol solution (anion S) / real_of_int (nu_anion S)) / 2)
                + sum_list (map (\<lambda>(item, s). volume_contribution db S True item s)
                              (components solution)),
                Info_pitzer_volume (formula S)
                  # concat (map (\<lambda>(item, s). volume_events db S True item)
                              (components solution)))"
  using pitzer_volume_part_spec [of db solution ps ac] ps len nz
  unfolding S get_solute_volume_def
  by (simp add: partial_molar_loop_sums)

theorem solute_volume_pitzer_salt_witness:
  "NaCl = get_salt (brine 1 [(NaCl, 2)]) \<and>
   example_db (formula NaCl) pitzer_parameters_volume = Some [1, 2, 3, 4, 5] \<and>
   5 \<le> length [1, 2, 3, 4, 5 :: real] \<and> nu_cation NaCl \<noteq> 0 \<and> nu_anion NaCl \<noteq> 0 \<and>
   get_solute_volume (probe arg_molality) example_db (brine 1 [(NaCl, 2)])
     = Inr (25 / 2, [Info_pitzer_volume ''NaCl'', Info_partial_molar_volume ''K+'',
                     Warning_no_partial_molar_volume ''Mg+2'',
                     Warning_no_partial_molar_volume ''Xe'']) \<and>
   get_solute_volume (probe alpha1) example_db (brine 1 [(NaCl, 2)])
     = Inr (10, [Info_pitzer_volume ''NaCl'', Info_partial_molar_volume ''K+'',
                 Warning_no_partial_molar_volume ''Mg+2'',
                 Warning_no_partial_molar_volume ''Xe''])"
proof -
  have h1: "NaCl = get_salt (brine 1 [(NaCl, 2)])" by (simp add: brine_def)
  have h2: "example_db (formula NaCl) pitzer_parameters_volume = Some [1, 2, 3, 4, 5]"
    by (simp add: NaCl_def example_db_simps)
  have h3: "5 \<le> length [1, 2, 3, 4, 5 :: real]" by simp
  have h4: "nu_cation NaCl \<noteq> 0" "nu_anion NaCl \<noteq> 0" by (simp_all add: NaCl_def)
  have pmv: "example_db ''K+'' partial_molar_volume = Some [1]"
    "example_db ''Mg+2'' partial_molar_volume = None"
    "example_db ''Xe'' partial_molar_volume = None"
    by (simp_all add: example_db_def)
  note inst = solute_volume_pitzer_salt [where db = example_db and S = NaCl
      and solution = "brine 1 [(NaCl, 2)]", OF h1 h2 h3 h4]
  have a: "get_solute_volume (probe arg_molality) example_db (brine 1 [(NaCl, 2)])
     = Inr (25 / 2, [Info_pitzer_volume ''NaCl'', Info_partial_molar_volume ''K+'',
                     Warning_no_partial_molar_volume ''Mg+2'',
                     Warning_no_partial_molar_volume ''Xe''])"
    unfolding inst [of "probe arg_molality"]
    by (simp add: brine_def NaCl_def probe_def pitzer_args.truncate_def an_ion_def
          volume_contribution_def volume_events_def pmv)
  have b: "get_solute_volume (probe alpha1) example_db (brine 1 [(NaCl, 2)])
     = Inr (10, [Info_pitzer_volume ''NaCl'', Info_partial_molar_volume ''K+'',
                 Warning_no_partial_molar_volume ''Mg+2'',
                 Warning_no_partial_molar_volume ''Xe''])"
    unfolding inst [of "probe alpha1"]
    by (simp add: brine_def NaCl_def probe_def pitzer_args.truncate_def an_ion_def
          volume_contribution_def volume_events_def pmv stoichiometry_alpha_def)
  show ?thesis using h1 h2 h3 h4 a b by simp
qed

text \<open>
  Claim C8: the loop over the components never raises. From any running volume it adds,
  for each component other than water and, when the Pitzer volume was used, other than
  the two ions of the predominant salt, the stored partial molar volume times the moles;
  a component without a stored partial molar volume adds nothing and logs a warning.
  When no Pitzer volume parameters are stored either, \<open>get_solute_volume\<close> returns
  that sum, in litres.
\<close>

theorem solute_volume_tolerates_missing_data:
  "partial_molar_loop db Salt pitzer_calc comps v lg =
     (v + sum_list (map (\<lambda>(item, s). volume_contribution db Salt pitzer_calc item s) comps),
      lg @ concat (map (\<lambda>(item, s). volume_events db Salt pitzer_calc item) comps)) \<and>
   (db (formula (get_salt solution)) pitzer_parameters_volume = None \<longrightarrow>
      get_solute_volume ac db solution =
        Inr (sum_list (map (\<lambda>(item, s). volume_contribution db (get_salt solution) False item s)
                         (components solution)),
             concat (map (\<lambda>(item, s). volume_events db (get_salt solution) False item)
                       (components solution))))"
  by (simp add: partial_molar_loop_sums get_solute_volume_def pitzer_volume_part_def)

theorem solute_volume_tolerates_missing_data_witness:
  "example_db (formula (get_salt ((brine 1 [(KCl, 1)])\<lparr>get_salt := KCl\<rparr>)))
     pitzer_parameters_volume = None \<and>
   get_solute_volume (probe alpha1) example_db ((brine 1 [(KCl, 1)])\<lparr>get_salt := KCl\<rparr>)
     = Inr (32, [Info_partial_molar_volume ''Na+'', Info_partial_molar_volume ''K+'',
                 Info_partial_molar_volume ''Cl-'',
                 Warning_no_partial_molar_volume ''Mg+2'',
                 Warning_no_partial_molar_volume ''Xe''])"
proof -
  let ?s = "(brine 1 [(KCl, 1)])\<lparr>get_salt := KCl\<rparr>"
  have h: "example_db (formula (get_salt ?s)) pitzer_parameters_volume = None"
    by (simp add: KCl_def example_db_def)
  have pmv: "example_db ''Na+'' partial_molar_volume = Some [1]"
    "example_db ''K+'' partial_molar_volume = Some [1]"
    "example_db ''Cl-'' partial_molar_volume = Some [1]"
    "example_db ''Mg+2'' partial_molar_volume = None"
    "example_db ''Xe'' partial_molar_volume = None"
    by (simp_all add: example_db_def)
  from solute_volume_tolerates_missing_data
         [where db = example_db and solution = ?s and ac = "probe alpha1"] h
  have "get_solute_volume (probe alpha1) example_db ?s =
        Inr (sum_list (map (\<lambda>(item, s). volume_contribution example_db (get_salt ?s) False item s)
                         (components ?s)),
             concat (map (\<lambda>(item, s). volume_events example_db (get_salt ?s) False item)
                       (components ?s)))"
    by blast
  then show ?thesis
    using h
    by (simp add: brine_def an_ion_def volume_contribution_def volume_events_def pmv)
qed

end
